theory Spec2Isabelle
  imports Complex_Main "HOL-Library.Sublist"
begin

unbundle bit_operations_syntax

section \<open>The inspected kernel objects\<close>

text \<open>
  The script reads a live kernel through drgn. Every \<^verbatim>\<open>value_()\<close> call yields an
  unbounded Python integer, so raw fields are \<^typ>\<open>int\<close>. The enumeration constants the
  script fetches from the kernel at start-up (lines 46-54, and \<^verbatim>\<open>CSS_ONLINE\<close> at line 69)
  are not part of the script; they are carried in a record and passed to every function
  that uses them.
\<close>

record kconsts =
  IOC_RUNNING :: int
  NR_USAGE_SLOTS :: int
  HWEIGHT_WHOLE :: int
  VTIME_PER_SEC :: int
  VTIME_PER_USEC :: int
  AUTOP_SSD_FAST :: int
  AUTOP_SSD_DFL :: int
  AUTOP_SSD_QD1 :: int
  AUTOP_HDD :: int
  CSS_ONLINE :: int

text \<open>\<^verbatim>\<open>struct ioc\<close>: the per-device controller, with the fields the script reads.\<close>

record ioc =
  enabled :: int
  running :: int
  period_us :: int
  period_at :: int
  period_at_vtime :: int
  vtime_rate :: int
  busy_level :: int
  autop_idx :: int
  user_cost_model :: int
  user_qos_params :: int

text \<open>
  \<^verbatim>\<open>struct ioc_gq\<close>: the per-group accounting node. \<open>active_list_empty\<close> is the result of
  \<^verbatim>\<open>list_empty(iocg.active_list.address_of_())\<close>; \<open>blkg_use_delay\<close> and
  \<open>blkg_delay_nsec\<close> are the two counters read through the back pointer
  \<^verbatim>\<open>iocg.pd.blkg\<close>; \<open>address\<close> is \<^verbatim>\<open>iocg.value_()\<close>.
\<close>

record ioc_gq =
  iocg_ioc :: ioc
  active_list_empty :: bool
  weight :: int
  active :: int
  inuse :: int
  hweight_active :: int
  hweight_inuse :: int
  address :: int
  done_vtime :: int
  vtime :: int
  abs_vdebt :: int
  blkg_use_delay :: int
  blkg_delay_nsec :: int
  usage_idx :: int
  usages :: "int list"

text \<open>
  \<^verbatim>\<open>struct blkcg_gq\<close>: the device-level handle of a group. \<open>q_name\<close> is the device name
  reached through \<^verbatim>\<open>blkg.q.kobj.parent.name\<close> (\<open>None\<close> when that chain of reads raises),
  \<open>q_id\<close> is \<^verbatim>\<open>blkg.q.id\<close>, and \<open>pd\<close> is the policy slot \<^verbatim>\<open>blkg.pd[plid]\<close>, \<open>None\<close> for
  a null pointer.
\<close>

record blkcg_gq =
  q_name :: "string option"
  q_id :: int
  pd :: "ioc_gq option"

text \<open>
  \<^verbatim>\<open>struct blkcg\<close>: a hierarchy member with its \<^verbatim>\<open>css.flags\<close>, its name
  (\<^verbatim>\<open>css.cgroup.kn.name\<close>), its radix tree of handles keyed by queue id, and its children
  in sibling order.
\<close>

datatype blkcg =
  Blkcg (css_flags: int) (kn_name: string) (blkg_tree: "(int \<times> blkcg_gq) list")
    (css_children: "blkcg list")

section \<open>BlkgIterator\<close>

text \<open>
  \<^verbatim>\<open>radix_tree_lookup\<close> returns the stored pointer or null; the first entry for a key is
  the one found.
\<close>

definition radix_tree_lookup :: "(int \<times> blkcg_gq) list \<Rightarrow> int \<Rightarrow> blkcg_gq option" where
  "radix_tree_lookup tree k = map_of tree k"

text \<open>
  \<^verbatim>\<open>BlkgIterator.walk\<close> (lines 67-83). The list \<^verbatim>\<open>self.blkgs\<close> that the method appends to
  is threaded through as the last argument and returned.
\<close>

fun walk :: "kconsts \<Rightarrow> bool \<Rightarrow> blkcg \<Rightarrow> int \<Rightarrow> string \<Rightarrow> (string \<times> blkcg_gq) list
    \<Rightarrow> (string \<times> blkcg_gq) list" where
  "walk K include_dying (Blkcg flags name tree cs) q parent_path blkgs =
     (if \<not> include_dying \<and> \<not> (flags AND CSS_ONLINE K \<noteq> 0) then blkgs
      else
        let path = (if parent_path \<noteq> [] then parent_path @ ''/'' @ name else name) in
        case radix_tree_lookup tree q of
          None \<Rightarrow> blkgs
        | Some blkg \<Rightarrow>
            fold (\<lambda>c acc. walk K include_dying c q path acc) cs
              (blkgs @ [(if path \<noteq> [] then path else ''/'', blkg)]))"

text \<open>\<^verbatim>\<open>BlkgIterator.__init__\<close> (lines 85-88) followed by \<^verbatim>\<open>__iter__\<close>.\<close>

definition BlkgIterator :: "kconsts \<Rightarrow> blkcg \<Rightarrow> int \<Rightarrow> bool \<Rightarrow> (string \<times> blkcg_gq) list" where
  "BlkgIterator K root_blkcg q include_dying = walk K include_dying root_blkcg q [] []"

section \<open>Python numbers and string formatting\<close>

text \<open>
  The exceptions the modelled code can raise: a true division by zero, a read outside
  the inspected object, and \<^verbatim>\<open>re.error\<close> for a pattern that does not compile.
\<close>

datatype error = ZeroDivisionError | FaultError | ReError

definition bind_err :: "error + 'a \<Rightarrow> ('a \<Rightarrow> error + 'b) \<Rightarrow> error + 'b" where
  "bind_err m f = (case m of Inl e \<Rightarrow> Inl e | Inr x \<Rightarrow> f x)"

text \<open>
  A Python number is an \<^verbatim>\<open>int\<close> or a \<^verbatim>\<open>float\<close>. A float is represented by the exact
  rational value of the operation that produced it: binary rounding, infinities and NaN
  are outside the model.
\<close>

datatype pynum = PInt int | PFloat rat

fun num_val :: "pynum \<Rightarrow> rat" where
  "num_val (PInt i) = of_int i"
| "num_val (PFloat r) = r"

text \<open>The operator \<^verbatim>\<open>/\<close>: raises on a zero divisor, otherwise yields a float.\<close>

definition truediv :: "rat \<Rightarrow> rat \<Rightarrow> error + rat" where
  "truediv a b = (if b = 0 then Inl ZeroDivisionError else Inr (a / b))"

text \<open>\<^verbatim>\<open>max(a, b)\<close> returns \<open>b\<close> only when it is strictly greater.\<close>

definition py_max :: "pynum \<Rightarrow> pynum \<Rightarrow> pynum" where
  "py_max a b = (if num_val b > num_val a then b else a)"

definition math_ceil :: "rat \<Rightarrow> int" where
  "math_ceil r = - \<lfloor>- r\<rfloor>"

text \<open>\<^verbatim>\<open>round(x)\<close> with one argument: to the nearest integer, ties to the even one.\<close>

definition py_round :: "rat \<Rightarrow> int" where
  "py_round r =
     (let f = \<lfloor>r\<rfloor>; d = r - of_int f in
      if d < 1 / 2 then f
      else if 1 / 2 < d then f + 1
      else if even f then f else f + 1)"

definition digit_char :: "nat \<Rightarrow> char" where
  "digit_char d = ''0123456789'' ! d"

fun str_nat :: "nat \<Rightarrow> string" where
  "str_nat n = (if n < 10 then [digit_char n] else str_nat (n div 10) @ [digit_char (n mod 10)])"

declare str_nat.simps [simp del]

definition str_int :: "int \<Rightarrow> string" where
  "str_int i = (if i < 0 then ''-'' @ str_nat (nat (- i)) else str_nat (nat i))"

definition rjust :: "nat \<Rightarrow> char \<Rightarrow> string \<Rightarrow> string" where
  "rjust w c s = replicate (w - length s) c @ s"

definition ljust :: "nat \<Rightarrow> char \<Rightarrow> string \<Rightarrow> string" where
  "ljust w c s = s @ replicate (w - length s) c"

text \<open>
  Integer presentation \<^verbatim>\<open>{x:W}\<close>, \<^verbatim>\<open>{x:+W}\<close> and \<^verbatim>\<open>{x:0W}\<close>: \<open>force_sign\<close> asks for a sign on
  non-negative numbers, \<open>zero_pad\<close> for zero padding between the sign and the digits;
  without it numbers are right-aligned with spaces.
\<close>

definition fmt_int :: "bool \<Rightarrow> bool \<Rightarrow> nat \<Rightarrow> int \<Rightarrow> string" where
  "fmt_int force_sign zero_pad w x =
     (let sgn = (if x < 0 then ''-'' else if force_sign then ''+'' else []);
          ds = str_nat (nat \<bar>x\<bar>) in
      if zero_pad then sgn @ rjust (w - length sgn) (CHR ''0'') ds
      else rjust w (CHR '' '') (sgn @ ds))"

text \<open>
  Fixed-point presentation \<^verbatim>\<open>{x:W.Pf}\<close>: \<open>p\<close> digits after the point, the last one
  rounded half to even, right-aligned in \<open>w\<close> columns.
\<close>

definition fmt_f :: "nat \<Rightarrow> nat \<Rightarrow> rat \<Rightarrow> string" where
  "fmt_f w p x =
     (let m = nat (py_round (\<bar>x\<bar> * 10 ^ p));
          body = str_nat (m div 10 ^ p) @ ''.'' @ rjust p (CHR ''0'') (str_nat (m mod 10 ^ p)) in
      rjust w (CHR '' '') ((if x < 0 then ''-'' else []) @ body))"

text \<open>
  \<^verbatim>\<open>str\<close> of a float. CPython prints the shortest decimal that reads back as the same
  double. For a value with a terminating decimal expansion of at most 15 significant
  digits and magnitude in \<open>[1e-4, 1e16)\<close>, or zero, that is the expansion itself with at
  least one digit after the point, which is what this function prints. Outside
  that range the digits CPython prints depend on binary rounding; there the function
  cuts the expansion after 17 fractional digits and is only an approximation.
\<close>

fun frac_digits :: "nat \<Rightarrow> rat \<Rightarrow> string" where
  "frac_digits 0 r = []"
| "frac_digits (Suc n) r =
     (if r = 0 then []
      else let d = \<lfloor>r * 10\<rfloor> in digit_char (nat d) # frac_digits n (r * 10 - of_int d))"

definition str_float :: "rat \<Rightarrow> string" where
  "str_float x =
     (let a = \<bar>x\<bar>; ip = \<lfloor>a\<rfloor>; ds = frac_digits 17 (a - of_int ip) in
      (if x < 0 then ''-'' else []) @ str_nat (nat ip) @ ''.'' @ (if ds = [] then ''0'' else ds))"

fun py_str :: "pynum \<Rightarrow> string" where
  "py_str (PInt i) = str_int i"
| "py_str (PFloat r) = str_float r"

text \<open>Presentation type \<^verbatim>\<open>f\<close> accepts an int as well and converts it to a float first.\<close>

definition fmt_f_num :: "nat \<Rightarrow> nat \<Rightarrow> pynum \<Rightarrow> string" where
  "fmt_f_num w p x = fmt_f w p (num_val x)"

text \<open>The slice \<^verbatim>\<open>s[-n:]\<close> for positive \<open>n\<close>, and \<^verbatim>\<open>s.rstrip(c)\<close> for one character.\<close>

definition last_chars :: "nat \<Rightarrow> string \<Rightarrow> string" where
  "last_chars n s = drop (length s - n) s"

definition rstrip :: "char \<Rightarrow> string \<Rightarrow> string" where
  "rstrip c s = rev (dropWhile (\<lambda>x. x = c) (rev s))"

section \<open>IocStat\<close>

record IocStat =
  enabled :: int
  running :: bool
  period_ms :: rat
  period_at :: rat
  vperiod_at :: rat
  vrate_pct :: rat
  busy_level :: int
  autop_idx :: int
  user_cost_model :: int
  user_qos_params :: int
  autop_name :: string

text \<open>
  The dict literal \<^verbatim>\<open>autop_names\<close> (lines 56-61): entries are stored in source order, a
  later entry replacing an earlier one with an equal key.
\<close>

definition autop_names :: "kconsts \<Rightarrow> int \<rightharpoonup> string" where
  "autop_names K =
     [AUTOP_SSD_FAST K \<mapsto> ''ssd_fast'', AUTOP_SSD_DFL K \<mapsto> ''ssd_dfl'',
      AUTOP_SSD_QD1 K \<mapsto> ''ssd_qd1'', AUTOP_HDD K \<mapsto> ''hdd'']"

text \<open>\<^verbatim>\<open>IocStat.__init__\<close> (lines 94-111).\<close>

definition IocStat_init :: "kconsts \<Rightarrow> ioc \<Rightarrow> error + IocStat" where
  "IocStat_init K c =
     bind_err (truediv (of_int (ioc.period_us c)) 1000) (\<lambda>period_ms.
     bind_err (truediv (of_int (ioc.period_at c)) 1000000) (\<lambda>period_at.
     bind_err (truediv (of_int (ioc.period_at_vtime c)) (of_int (VTIME_PER_SEC K))) (\<lambda>vperiod_at.
     bind_err (truediv (of_int (ioc.vtime_rate c * 100)) (of_int (VTIME_PER_USEC K))) (\<lambda>vrate_pct.
     Inr \<lparr> enabled = ioc.enabled c,
           running = (ioc.running c = IOC_RUNNING K),
           period_ms = period_ms,
           period_at = period_at,
           vperiod_at = vperiod_at,
           vrate_pct = vrate_pct,
           busy_level = ioc.busy_level c,
           autop_idx = ioc.autop_idx c,
           user_cost_model = ioc.user_cost_model c,
           user_qos_params = ioc.user_qos_params c,
           autop_name = (case autop_names K (ioc.autop_idx c) of
                           Some n \<Rightarrow> n | None \<Rightarrow> ''?'') \<rparr>))))"

text \<open>
  \<^verbatim>\<open>IocStat.dict\<close> (lines 113-122). The Python dict keeps insertion order; it is an
  association list here. \<open>now\<close> is the float returned by \<^verbatim>\<open>time.time()\<close>.
\<close>

definition IocStat_dict :: "string \<Rightarrow> IocStat \<Rightarrow> rat \<Rightarrow> (string \<times> string) list" where
  "IocStat_dict devname s now =
     [(''device'', devname),
      (''timestamp'', str_float now),
      (''enabled'', str_int (IocStat.enabled s)),
      (''running'', str_int (if IocStat.running s then 1 else 0)),
      (''period_ms'', str_float (period_ms s)),
      (''period_at'', str_float (IocStat.period_at s)),
      (''period_vtime_at'', str_float (vperiod_at s)),
      (''busy_level'', str_int (IocStat.busy_level s)),
      (''vrate_pct'', str_float (vrate_pct s))]"

text \<open>\<^verbatim>\<open>IocStat.table_preamble_str\<close> (lines 124-134).\<close>

definition table_preamble_str :: "string \<Rightarrow> IocStat \<Rightarrow> string" where
  "table_preamble_str devname s =
     (let state = (if IocStat.enabled s \<noteq> 0
                   then (if IocStat.running s then ''RUN'' else ''IDLE'') else ''OFF'');
          output = devname @ '' '' @ ljust 4 (CHR '' '') state @ '' '' @
                   ''per='' @ str_float (period_ms s) @ ''ms '' @
                   ''cur_per='' @ fmt_f 0 3 (IocStat.period_at s) @ '':v'' @
                     fmt_f 0 3 (vperiod_at s) @ '' '' @
                   ''busy='' @ fmt_int True False 3 (IocStat.busy_level s) @ '' '' @
                   ''vrate='' @ fmt_f 6 2 (vrate_pct s) @ ''% '' @
                   ''params='' @ autop_name s in
      if IocStat.user_cost_model s \<noteq> 0 \<or> IocStat.user_qos_params s \<noteq> 0
      then output @ ''('' @ (if IocStat.user_cost_model s \<noteq> 0 then ''C'' else []) @
             (if IocStat.user_qos_params s \<noteq> 0 then ''Q'' else []) @ '')''
      else output)"

text \<open>\<^verbatim>\<open>IocStat.table_header_str\<close> (lines 136-138).\<close>

definition table_header_str :: string where
  "table_header_str =
     ljust 25 (CHR '' '') [] @ '' active '' @ rjust 9 (CHR '' '') ''weight'' @ '' '' @
     rjust 13 (CHR '' '') ''hweight%'' @ '' '' @ rjust 6 (CHR '' '') ''inflt%'' @ '' '' @
     rjust 3 (CHR '' '') ''dbt'' @ '' '' @ rjust 6 (CHR '' '') ''delay'' @ '' '' @ ''usages%''"

section \<open>IocgStat\<close>

record IocgStat =
  is_active :: bool
  weight :: int
  active :: int
  inuse :: int
  hwa_pct :: rat
  hwi_pct :: rat
  address :: int
  inflight_pct :: pynum
  debt_ms :: rat
  use_delay :: int
  delay_ms :: rat
  usages :: "rat list"
  usage :: pynum

text \<open>
  Reading slot \<open>k\<close> of the array \<^verbatim>\<open>iocg.usages\<close>; an index outside the array is a read
  outside the object.
\<close>

definition array_read :: "int list \<Rightarrow> int \<Rightarrow> error + int" where
  "array_read xs k = (if 0 \<le> k \<and> k < int (length xs) then Inr (xs ! nat k) else Inl FaultError)"

text \<open>
  The loop of lines 169-173 over the remaining values of \<^verbatim>\<open>range(NR_USAGE_SLOTS)\<close>, with
  \<^verbatim>\<open>self.usages\<close> and \<^verbatim>\<open>self.usage\<close> as the accumulated state.
\<close>

fun usages_loop :: "kconsts \<Rightarrow> ioc_gq \<Rightarrow> nat list \<Rightarrow> rat list \<times> pynum
    \<Rightarrow> error + (rat list \<times> pynum)" where
  "usages_loop K g [] st = Inr st"
| "usages_loop K g (i # rest) (us, u) =
     bind_err (array_read (ioc_gq.usages g)
                 ((usage_idx g + int i) mod NR_USAGE_SLOTS K)) (\<lambda>usage.
     bind_err (truediv (of_int (usage * 100)) (of_int (HWEIGHT_WHOLE K))) (\<lambda>upct.
     usages_loop K g rest (us @ [upct], py_max u (PFloat upct))))"

text \<open>\<^verbatim>\<open>range(n)\<close>: empty when \<open>n\<close> is not positive.\<close>

definition py_range :: "int \<Rightarrow> nat list" where
  "py_range n = [0..<nat n]"

text \<open>\<^verbatim>\<open>IocgStat.__init__\<close> (lines 141-173).\<close>

definition IocgStat_init :: "kconsts \<Rightarrow> ioc_gq \<Rightarrow> error + IocgStat" where
  "IocgStat_init K g =
     bind_err (truediv (of_int (hweight_active g * 100)) (of_int (HWEIGHT_WHOLE K))) (\<lambda>hwa.
     bind_err (truediv (of_int (hweight_inuse g * 100)) (of_int (HWEIGHT_WHOLE K))) (\<lambda>hwi.
     let vdone = done_vtime g;
         vtime = ioc_gq.vtime g;
         vrate = ioc.vtime_rate (iocg_ioc g);
         period_vtime = ioc.period_us (iocg_ioc g) * vrate in
     bind_err (if period_vtime \<noteq> 0
               then map_sum id PFloat
                      (truediv (of_int ((vtime - vdone) * 100)) (of_int period_vtime))
               else Inr (PInt 0)) (\<lambda>inflight.
     bind_err (truediv (of_int (abs_vdebt g)) (of_int (VTIME_PER_USEC K))) (\<lambda>d.
     bind_err (truediv d 1000) (\<lambda>debt.
     bind_err (truediv (of_int (blkg_delay_nsec g)) 1000000) (\<lambda>delay.
     bind_err (usages_loop K g (py_range (NR_USAGE_SLOTS K)) ([], PInt 0)) (\<lambda>(us, u).
     Inr \<lparr> is_active = \<not> active_list_empty g,
           weight = ioc_gq.weight g,
           active = ioc_gq.active g,
           inuse = ioc_gq.inuse g,
           hwa_pct = hwa,
           hwi_pct = hwi,
           address = ioc_gq.address g,
           inflight_pct = inflight,
           debt_ms = debt,
           use_delay = blkg_use_delay g,
           delay_ms = delay,
           usages = us,
           usage = u \<rparr>)))))))"

text \<open>\<^verbatim>\<open>hex(n)\<close>: lowercase digits after \<^verbatim>\<open>0x\<close>, the sign in front.\<close>

definition hex_char :: "nat \<Rightarrow> char" where
  "hex_char d = ''0123456789abcdef'' ! d"

fun hex_nat :: "nat \<Rightarrow> string" where
  "hex_nat n = (if n < 16 then [hex_char n] else hex_nat (n div 16) @ [hex_char (n mod 16)])"

declare hex_nat.simps [simp del]

definition py_hex :: "int \<Rightarrow> string" where
  "py_hex i = (if i < 0 then ''-'' else []) @ ''0x'' @ hex_nat (nat \<bar>i\<bar>)"

text \<open>
  \<^verbatim>\<open>d[k] = v\<close> on an insertion-ordered dict: an existing key keeps its place and takes the
  new value, a new key goes to the end.
\<close>

definition dict_set :: "(string \<times> string) list \<Rightarrow> string \<Rightarrow> string \<Rightarrow> (string \<times> string) list" where
  "dict_set d k v =
     (if k \<in> set (map fst d) then map (\<lambda>(k', v'). if k' = k then (k', v) else (k', v')) d
      else d @ [(k, v)])"

text \<open>The loop of lines 190-191 over the remaining indices.\<close>

fun dict_usages_loop :: "rat list \<Rightarrow> nat list \<Rightarrow> (string \<times> string) list
    \<Rightarrow> (string \<times> string) list" where
  "dict_usages_loop us [] out = out"
| "dict_usages_loop us (i # rest) out =
     dict_usages_loop us rest (dict_set out (''usage_pct_'' @ str_nat i) (str_float (us ! i)))"

text \<open>\<^verbatim>\<open>IocgStat.dict\<close> (lines 175-192).\<close>

definition IocgStat_dict :: "IocgStat \<Rightarrow> rat \<Rightarrow> string \<Rightarrow> (string \<times> string) list" where
  "IocgStat_dict s now path =
     (let out = [(''cgroup'', path),
                 (''timestamp'', str_float now),
                 (''is_active'', str_int (if is_active s then 1 else 0)),
                 (''weight'', str_int (weight s)),
                 (''weight_active'', str_int (active s)),
                 (''weight_inuse'', str_int (inuse s)),
                 (''hweight_active_pct'', str_float (hwa_pct s)),
                 (''hweight_inuse_pct'', str_float (hwi_pct s)),
                 (''inflight_pct'', py_str (inflight_pct s)),
                 (''debt_ms'', str_float (debt_ms s)),
                 (''use_delay'', str_int (use_delay s)),
                 (''delay_ms'', str_float (delay_ms s)),
                 (''usage_pct'', py_str (usage s)),
                 (''address'', py_hex (address s))] in
      dict_usages_loop (usages s) [0..<length (usages s)] out)"

text \<open>
  \<^verbatim>\<open>IocgStat.table_row_str\<close> (lines 194-206). Each replacement field of the f-string
  with a computed argument is a function of its own; the row is their concatenation.
\<close>

definition row_debt :: "IocgStat \<Rightarrow> string" where
  "row_debt s = fmt_int False False 3 (min (math_ceil (debt_ms s)) 999)"

definition row_use_delay :: "IocgStat \<Rightarrow> string" where
  "row_use_delay s = fmt_int False False 2 (min (use_delay s) 99)"

definition row_delay :: "IocgStat \<Rightarrow> string" where
  "row_delay s = fmt_int False True 3 (min (math_ceil (delay_ms s)) 999)"

definition row_usage_slot :: "rat \<Rightarrow> string" where
  "row_usage_slot u = fmt_int False True 3 (min (py_round u) 999)"

definition table_row_str :: "IocgStat \<Rightarrow> string \<Rightarrow> string" where
  "table_row_str s path =
     (let out = ljust 28 (CHR '' '') (last_chars 28 path) @ '' '' @
                (if is_active s then ''*'' else '' '') @ '' '' @
                fmt_int False False 5 (inuse s) @ ''/'' @ fmt_int False False 5 (active s) @ '' '' @
                fmt_f 6 2 (hwi_pct s) @ ''/'' @ fmt_f 6 2 (hwa_pct s) @ '' '' @
                fmt_f_num 6 2 (inflight_pct s) @ '' '' @
                row_debt s @ '' '' @
                row_use_delay s @ ''*'' @
                row_delay s @ '' '';
          out = fold (\<lambda>u out. out @ row_usage_slot u @ '':'') (usages s) out in
      rstrip (CHR '':'') out)"

section \<open>Arguments and the name filter\<close>

text \<open>
  Lines 216-224. \<open>cgroup\<close> is \<^verbatim>\<open>args.cgroup\<close>: the patterns given with \<^verbatim>\<open>--cgroup\<close> in
  order, and \<open>[]\<close> when the option is absent (argparse then stores \<^verbatim>\<open>None\<close>, which the test
  on line 217 treats like an empty list). A compiled pattern is represented by its source
  string.
\<close>

fun re_str_loop :: "string option \<Rightarrow> string list \<Rightarrow> string option" where
  "re_str_loop acc [] = acc"
| "re_str_loop None (r # rs) = re_str_loop (Some r) rs"
| "re_str_loop (Some s) (r # rs) = re_str_loop (Some (s @ ''|'' @ r)) rs"

definition re_str :: "string list \<Rightarrow> string option" where
  "re_str cgroup = (if cgroup \<noteq> [] then re_str_loop None cgroup else None)"

definition filter_re :: "string list \<Rightarrow> string option" where
  "filter_re cgroup =
     (case re_str cgroup of
        None \<Rightarrow> None
      | Some s \<Rightarrow> if s \<noteq> [] then Some s else None)"

section \<open>Locating the roots\<close>

text \<open>
  What \<^verbatim>\<open>sys.exit\<close> leaves behind: the text written to the error stream and the exit
  status. \<open>Continue\<close> carries the values the rest of the script goes on with.
\<close>

datatype 'a outcome = Exit string int | Continue 'a

text \<open>\<^verbatim>\<open>err\<close> (lines 36-38); \<^verbatim>\<open>print\<close> ends the message with a newline.\<close>

definition err :: "string \<Rightarrow> 'a outcome" where
  "err s = Exit (s @ [CHR 0x0A]) 1"

text \<open>
  The loop of lines 231-241 over the entries of the root's radix tree, in iteration order.
  The three variables \<^verbatim>\<open>q_id\<close>, \<^verbatim>\<open>root_iocg\<close> and \<^verbatim>\<open>ioc\<close> are assigned together: the
  result is \<open>None\<close> while all three hold \<^verbatim>\<open>None\<close>, and \<open>Some (q_id, root_iocg)\<close> once
  \<^verbatim>\<open>q_id\<close> is set, where \<^verbatim>\<open>ioc\<close> is \<^verbatim>\<open>root_iocg.ioc\<close> when \<^verbatim>\<open>root_iocg\<close> is set and \<^verbatim>\<open>None\<close>
  otherwise. An entry whose device name cannot be read raises inside the \<^verbatim>\<open>try\<close> and is
  passed over.
\<close>

fun locate_roots :: "string \<Rightarrow> blkcg_gq list \<Rightarrow> (int \<times> ioc_gq option) option" where
  "locate_roots devname [] = None"
| "locate_roots devname (blkg # rest) =
     (case q_name blkg of
        None \<Rightarrow> locate_roots devname rest
      | Some n \<Rightarrow>
          if devname = n then Some (q_id blkg, pd blkg)
          else locate_roots devname rest)"

text \<open>
  Lines 40-44 and 227-244: \<open>kroot\<close> is \<^verbatim>\<open>prog['blkcg_root']\<close>, \<open>None\<close> when the kernel has
  no such symbol or no iocost policy, so that the \<^verbatim>\<open>try\<close> of line 40 raises. On success
  the script goes on with \<^verbatim>\<open>q_id\<close>.
\<close>

definition startup :: "blkcg option \<Rightarrow> string \<Rightarrow> int outcome" where
  "startup kroot devname =
     (case kroot of
        None \<Rightarrow> err ''The kernel does not have iocost enabled''
      | Some blkcg_root \<Rightarrow>
          (case locate_roots devname (map snd (blkg_tree blkcg_root)) of
             Some (q, Some root_iocg) \<Rightarrow> Continue q
           | _ \<Rightarrow> err (''Could not find ioc for '' @ devname)))"

section \<open>The sampling loop\<close>

text \<open>
  The parsed command line (lines 24-34 and 209-214): \<^verbatim>\<open>table_fmt\<close> is \<^verbatim>\<open>not args.json\<close>.
\<close>

record args =
  devname :: string
  cgroup :: "string list"
  json :: bool

definition table_fmt :: "args \<Rightarrow> bool" where
  "table_fmt a = (\<not> json a)"

text \<open>
  The library functions are parameters: \<open>re_valid p\<close> tells whether \<^verbatim>\<open>re.compile(p)\<close>
  returns a pattern rather than raising \<^verbatim>\<open>re.error\<close>, \<open>re_match p s\<close> whether
  \<^verbatim>\<open>re.compile(p).match(s)\<close> returns a match object, and \<open>dumps\<close> is \<^verbatim>\<open>json.dumps\<close> on a
  dict of strings.
\<close>

record pylib =
  re_valid :: "string \<Rightarrow> bool"
  re_match :: "string \<Rightarrow> string \<Rightarrow> bool"
  dumps :: "(string \<times> string) list \<Rightarrow> string"

text \<open>
  Line 224 calls \<^verbatim>\<open>re.compile\<close> only on a non-empty \<^verbatim>\<open>re_str\<close>; the call raises when the
  joined pattern is not a valid regular expression.
\<close>

definition compile_raises :: "pylib \<Rightarrow> args \<Rightarrow> bool" where
  "compile_raises L a =
     (case filter_re (cgroup a) of Some p \<Rightarrow> \<not> re_valid L p | None \<Rightarrow> False)"

text \<open>
  The \<^verbatim>\<open>for\<close> loop of lines 258-273 over the pairs the iterator yields, with \<^verbatim>\<open>output\<close> as
  the accumulated state. An exception of \<^verbatim>\<open>IocgStat\<close> leaves the loop.
\<close>

fun node_loop :: "kconsts \<Rightarrow> pylib \<Rightarrow> args \<Rightarrow> rat \<Rightarrow> (string \<times> blkcg_gq) list \<Rightarrow> string
    \<Rightarrow> error + string" where
  "node_loop K L a now [] output = Inr output"
| "node_loop K L a now ((path, blkg) # rest) output =
     (if (case filter_re (cgroup a) of Some p \<Rightarrow> \<not> re_match L p path | None \<Rightarrow> False)
      then node_loop K L a now rest output
      else case pd blkg of
        None \<Rightarrow> node_loop K L a now rest output
      | Some iocg \<Rightarrow>
          bind_err (IocgStat_init K iocg) (\<lambda>iocg_stat.
            if filter_re (cgroup a) = None \<and> \<not> is_active iocg_stat
            then node_loop K L a now rest output
            else if table_fmt a
            then node_loop K L a now rest
                   (output @ [CHR 0x0A] @ table_row_str iocg_stat path)
            else node_loop K L a now rest
                   (output @ [CHR 0x0A] @ dumps L (IocgStat_dict iocg_stat now path))))"

text \<open>
  What one pass of the \<^verbatim>\<open>while\<close> body reads: the clock, the controller behind the handle
  \<^verbatim>\<open>ioc\<close>, and the hierarchy under \<^verbatim>\<open>blkcg_root\<close>.
\<close>

record snapshot =
  now :: rat
  snap_ioc :: ioc
  snap_root :: blkcg

text \<open>Lines 248-275: one pass of the body, returning the string given to \<^verbatim>\<open>print\<close>.\<close>

definition sampling_tick :: "kconsts \<Rightarrow> pylib \<Rightarrow> args \<Rightarrow> int \<Rightarrow> snapshot \<Rightarrow> error + string" where
  "sampling_tick K L a q snap =
     bind_err (IocStat_init K (snap_ioc snap)) (\<lambda>iocstat.
       let output =
             (if table_fmt a
              then [CHR 0x0A] @ table_preamble_str (devname a) iocstat @
                   [CHR 0x0A] @ table_header_str
              else dumps L (IocStat_dict (devname a) iocstat (now snap))) in
       node_loop K L a (now snap) (BlkgIterator K (snap_root snap) q False) output)"

text \<open>
  A run of the script: \<open>Exited\<close> with the error-stream text and status after \<^verbatim>\<open>sys.exit\<close>,
  \<open>Raised\<close> after an uncaught exception, \<open>Running\<close> while the loop goes on; the last two
  carry the strings printed so far, one for each pass.
\<close>

datatype run = Exited string int | Raised error "string list" | Running "string list"

text \<open>
  The \<^verbatim>\<open>while True\<close> loop of line 247 never ends by itself. \<open>sampling_loop\<close> is the run
  through as many passes as there are snapshots in the list.
\<close>

fun sampling_loop :: "kconsts \<Rightarrow> pylib \<Rightarrow> args \<Rightarrow> int \<Rightarrow> snapshot list \<Rightarrow> string list \<Rightarrow> run" where
  "sampling_loop K L a q [] printed = Running printed"
| "sampling_loop K L a q (snap # rest) printed =
     (case sampling_tick K L a q snap of
        Inl e \<Rightarrow> Raised e printed
      | Inr output \<Rightarrow> sampling_loop K L a q rest (printed @ [output]))"

text \<open>
  The script from line 40 on: \<open>kroot\<close> is what the start-up reads, \<open>snaps\<close> what the passes
  of the loop read. The statements run in source order: the \<^verbatim>\<open>try\<close> of lines 40-44, which
  exits when the kernel symbols are missing; then \<^verbatim>\<open>re.compile\<close> on line 224, whose
  \<^verbatim>\<open>re.error\<close> nothing catches, so that the script ends there with a traceback and has
  printed nothing; then the search for the roots of lines 227-244; then the loop.
\<close>

definition main :: "kconsts \<Rightarrow> pylib \<Rightarrow> args \<Rightarrow> blkcg option \<Rightarrow> snapshot list \<Rightarrow> run" where
  "main K L a kroot snaps =
     (if kroot \<noteq> None \<and> compile_raises L a then Raised ReError []
      else case startup kroot (devname a) of
        Exit msg status \<Rightarrow> Exited msg status
      | Continue q \<Rightarrow> sampling_loop K L a q snaps [])"

section \<open>Reference values and example snapshots\<close>

text \<open>
  The values the constants have in the kernel sources the script targets
  (\<^verbatim>\<open>block/blk-iocost.c\<close>, \<^verbatim>\<open>include/linux/cgroup-defs.h\<close>), used for the examples.
\<close>

definition K_linux :: kconsts where
  "K_linux = \<lparr> IOC_RUNNING = 1, NR_USAGE_SLOTS = 3, HWEIGHT_WHOLE = 65536,
     VTIME_PER_SEC = 137438953472, VTIME_PER_USEC = 137438,
     AUTOP_SSD_FAST = 4, AUTOP_SSD_DFL = 3, AUTOP_SSD_QD1 = 2, AUTOP_HDD = 1,
     CSS_ONLINE = 2 \<rparr>"

text \<open>A controller that is enabled and running at the nominal rate.\<close>

definition ioc_run :: ioc where
  "ioc_run = \<lparr> ioc.enabled = 1, ioc.running = 1, period_us = 100000, ioc.period_at = 1500000,
     period_at_vtime = 0, vtime_rate = 137438, ioc.busy_level = - 5, ioc.autop_idx = 3,
     ioc.user_cost_model = 0, ioc.user_qos_params = 0 \<rparr>"

text \<open>The same controller with a period of length zero.\<close>

definition ioc_zero_period :: ioc where
  "ioc_zero_period = ioc_run \<lparr> period_us := 0 \<rparr>"

text \<open>An active node under \<open>ioc_run\<close>, and the same node under \<open>ioc_zero_period\<close>.\<close>

definition iocg_a :: ioc_gq where
  "iocg_a = \<lparr> iocg_ioc = ioc_run, active_list_empty = False, ioc_gq.weight = 100,
     ioc_gq.active = 100, ioc_gq.inuse = 50, hweight_active = 65536, hweight_inuse = 32768,
     ioc_gq.address = 18446612682170408960, done_vtime = 1000000000, vtime = 1687190000,
     abs_vdebt = 0, blkg_use_delay = 0, blkg_delay_nsec = 0, usage_idx = 1,
     ioc_gq.usages = [16384, 32768, 65536] \<rparr>"

definition iocg_zero_period :: ioc_gq where
  "iocg_zero_period = iocg_a \<lparr> iocg_ioc := ioc_zero_period \<rparr>"

definition blkg_a :: blkcg_gq where
  "blkg_a = \<lparr> q_name = Some ''sda'', q_id = 8, pd = Some iocg_a \<rparr>"

text \<open>
  Two hierarchies of three online-or-not members \<open>/\<close>, \<open>a\<close> and \<open>a/b\<close>. In \<open>tree_dying\<close>
  the member \<open>a\<close> is not online; in \<open>tree_gap\<close> it is online but has no handle for
  queue 8. The grandchild \<open>a/b\<close> is online and has a handle in both.
\<close>

definition tree_dying :: blkcg where
  "tree_dying =
     Blkcg 2 [] [(8, blkg_a)]
       [Blkcg 0 ''a'' [(8, blkg_a)] [Blkcg 2 ''b'' [(8, blkg_a)] []]]"

definition tree_gap :: blkcg where
  "tree_gap =
     Blkcg 2 [] [(8, blkg_a)]
       [Blkcg 2 ''a'' [(9, blkg_a)] [Blkcg 2 ''b'' [(8, blkg_a)] []]]"

text \<open>
  Library functions for the examples. They stand for \<^verbatim>\<open>re\<close> on the patterns made of
  alternatives separated by \<^verbatim>\<open>|\<close>, each an optional \<^verbatim>\<open>^\<close> followed by characters that
  stand for themselves. \<open>lit_valid\<close> accepts exactly these patterns, all of which
  compile; a pattern with another special character, such as an unbalanced \<^verbatim>\<open>(\<close>, is
  refused. \<open>lit_match\<close> accepts the subject when one alternative is a prefix of it.
  \<open>ascii_dumps\<close> is \<^verbatim>\<open>json.dumps\<close> for keys and values of printable ASCII.
\<close>

fun split_bar :: "string \<Rightarrow> string list" where
  "split_bar [] = [[]]"
| "split_bar (c # cs) =
     (if c = CHR ''|'' then [] # split_bar cs
      else (case split_bar cs of [] \<Rightarrow> [[c]] | alt # alts \<Rightarrow> (c # alt) # alts))"

definition lit_body :: "string \<Rightarrow> string" where
  "lit_body alt = (case alt of [] \<Rightarrow> [] | c # cs \<Rightarrow> if c = CHR ''^'' then cs else alt)"

definition lit_valid :: "string \<Rightarrow> bool" where
  "lit_valid p =
     list_all (\<lambda>alt. list_all (\<lambda>c. c \<notin> set (''.^$*+?{}[]()'' @ [CHR 0x5C])) (lit_body alt))
       (split_bar p)"

definition lit_match :: "string \<Rightarrow> string \<Rightarrow> bool" where
  "lit_match p s =
     list_ex (\<lambda>alt. prefix (lit_body alt) s) (split_bar p)"

definition json_quote :: "string \<Rightarrow> string" where
  "json_quote s =
     [CHR 0x22] @
     concat (map (\<lambda>c. if c = CHR 0x22 \<or> c = CHR 0x5C then [CHR 0x5C, c] else [c]) s) @
     [CHR 0x22]"

fun join_comma :: "string list \<Rightarrow> string" where
  "join_comma [] = []"
| "join_comma [x] = x"
| "join_comma (x # xs) = x @ '', '' @ join_comma xs"

definition ascii_dumps :: "(string \<times> string) list \<Rightarrow> string" where
  "ascii_dumps d =
     ''{'' @ join_comma (map (\<lambda>(k, v). json_quote k @ '': '' @ json_quote v) d) @ ''}''"

definition lib_ex :: pylib where
  "lib_ex = \<lparr> re_valid = lit_valid, re_match = lit_match, dumps = ascii_dumps \<rparr>"

text \<open>A handle for queue 8 whose policy slot is null, and a hierarchy with no handle
  named \<open>sdb\<close> at its root.\<close>

definition blkg_nopd :: blkcg_gq where
  "blkg_nopd = \<lparr> q_name = Some ''sda'', q_id = 8, pd = None \<rparr>"

definition args_db :: args where
  "args_db = \<lparr> devname = ''sda'', cgroup = [''^db/''], json = False \<rparr>"

definition args_sdb :: args where
  "args_sdb = \<lparr> devname = ''sdb'', cgroup = [], json = False \<rparr>"

definition args_sdb_db :: args where
  "args_sdb_db = \<lparr> devname = ''sdb'', cgroup = [''^db/'', ''cache''], json = False \<rparr>"

definition snap_dying :: snapshot where
  "snap_dying = \<lparr> now = 0, snap_ioc = ioc_run, snap_root = tree_dying \<rparr>"

text \<open>
  The constants with one tick per microsecond, and the node \<open>iocg_a\<close> with a debt of
  2,500,001 ticks.
\<close>

definition K_unit :: kconsts where
  "K_unit = K_linux \<lparr> VTIME_PER_USEC := 1 \<rparr>"

definition iocg_debt :: ioc_gq where
  "iocg_debt = iocg_a \<lparr> abs_vdebt := 2500001 \<rparr>"

text \<open>The statistics \<^verbatim>\<open>IocStat\<close> derives from \<open>ioc_run\<close> under \<open>K_linux\<close>.\<close>

definition iocstat_run :: IocStat where
  "iocstat_run = \<lparr> enabled = 1, running = True, period_ms = 100, period_at = 3 / 2,
     vperiod_at = 0, vrate_pct = 100, busy_level = - 5, autop_idx = 3, user_cost_model = 0,
     user_qos_params = 0, autop_name = ''ssd_dfl'' \<rparr>"

section \<open>Notions used in the statements\<close>

text \<open>
  Slot \<open>i\<close> of the utilization ring in logical order: the storage slot at index
  \<open>(usage_idx + i) mod NR_USAGE_SLOTS\<close>, times 100, over \<open>HWEIGHT_WHOLE\<close>.
\<close>

definition slot_pct :: "kconsts \<Rightarrow> ioc_gq \<Rightarrow> nat \<Rightarrow> rat" where
  "slot_pct K g i =
     of_int (ioc_gq.usages g ! nat ((usage_idx g + int i) mod NR_USAGE_SLOTS K) * 100)
       / of_int (HWEIGHT_WHOLE K)"

text \<open>
  The record \<^verbatim>\<open>IocgStat.__init__\<close> builds when no division and no read raises.
\<close>

definition IocgStat_value :: "kconsts \<Rightarrow> ioc_gq \<Rightarrow> IocgStat" where
  "IocgStat_value K g =
     \<lparr> is_active = \<not> active_list_empty g,
       weight = ioc_gq.weight g,
       active = ioc_gq.active g,
       inuse = ioc_gq.inuse g,
       hwa_pct = of_int (hweight_active g * 100) / of_int (HWEIGHT_WHOLE K),
       hwi_pct = of_int (hweight_inuse g * 100) / of_int (HWEIGHT_WHOLE K),
       address = ioc_gq.address g,
       inflight_pct =
         (if ioc.period_us (iocg_ioc g) * ioc.vtime_rate (iocg_ioc g) \<noteq> 0
          then PFloat (of_int ((ioc_gq.vtime g - done_vtime g) * 100)
                 / of_int (ioc.period_us (iocg_ioc g) * ioc.vtime_rate (iocg_ioc g)))
          else PInt 0),
       debt_ms = of_int (abs_vdebt g) / of_int (VTIME_PER_USEC K) / 1000,
       use_delay = blkg_use_delay g,
       delay_ms = of_int (blkg_delay_nsec g) / 1000000,
       usages = map (slot_pct K g) (py_range (NR_USAGE_SLOTS K)),
       usage = foldl py_max (PInt 0)
                 (map (\<lambda>i. PFloat (slot_pct K g i)) (py_range (NR_USAGE_SLOTS K))) \<rparr>"

text \<open>
  The patterns of \<^verbatim>\<open>args.cgroup\<close> joined with \<^verbatim>\<open>|\<close>, the alternation of regular expressions.
\<close>

fun or_pattern :: "string list \<Rightarrow> string" where
  "or_pattern [] = []"
| "or_pattern [r] = r"
| "or_pattern (r # rs) = r @ ''|'' @ or_pattern rs"

text \<open>The first handle in a list that carries the device name.\<close>

definition first_named :: "string \<Rightarrow> blkcg_gq list \<Rightarrow> blkcg_gq option" where
  "first_named dev entries = find (\<lambda>e. q_name e = Some dev) entries"

text \<open>The record \<^verbatim>\<open>IocStat.__init__\<close> builds when no division raises.\<close>

definition IocStat_value :: "kconsts \<Rightarrow> ioc \<Rightarrow> IocStat" where
  "IocStat_value K c =
     \<lparr> enabled = ioc.enabled c,
       running = (ioc.running c = IOC_RUNNING K),
       period_ms = of_int (ioc.period_us c) / 1000,
       period_at = of_int (ioc.period_at c) / 1000000,
       vperiod_at = of_int (ioc.period_at_vtime c) / of_int (VTIME_PER_SEC K),
       vrate_pct = of_int (ioc.vtime_rate c * 100) / of_int (VTIME_PER_USEC K),
       busy_level = ioc.busy_level c,
       autop_idx = ioc.autop_idx c,
       user_cost_model = ioc.user_cost_model c,
       user_qos_params = ioc.user_qos_params c,
       autop_name = (case autop_names K (ioc.autop_idx c) of Some n \<Rightarrow> n | None \<Rightarrow> ''?'') \<rparr>"



text \<open>
  The preamble: the device, the state label, the period, the position of the current
  period in wall and virtual time to three decimals, the signed busy level, the rate
  percentage to two decimals, the profile label, and the override marker when the cost
  model or the QoS parameters are set by the user.
\<close>

definition table_preamble_spec :: "string \<Rightarrow> bool \<Rightarrow> bool \<Rightarrow> rat \<Rightarrow> rat \<Rightarrow> rat \<Rightarrow> int \<Rightarrow> rat
    \<Rightarrow> string \<Rightarrow> bool \<Rightarrow> bool \<Rightarrow> string" where
  "table_preamble_spec dev is_enabled is_running per wall_at virt_at busy vrate label cost qos =
     dev @ '' '' @
     ljust 4 (CHR '' '') (if is_enabled then (if is_running then ''RUN'' else ''IDLE'') else ''OFF'') @
     '' per='' @ str_float per @ ''ms cur_per='' @ fmt_f 0 3 wall_at @ '':v'' @ fmt_f 0 3 virt_at @
     '' busy='' @ fmt_int True False 3 busy @
     '' vrate='' @ fmt_f 6 2 vrate @ ''% params='' @ label @
     (if cost \<or> qos
      then ''('' @ (if cost then ''C'' else []) @ (if qos then ''Q'' else []) @ '')''
      else [])"

section \<open>The walker\<close>

text \<open>
  C1, as the code has it: with \<open>include_dying\<close> false, a member that is not marked online
  ends the walk of its whole subtree. The walker returns the output sequence unchanged:
  neither the member nor any of its descendants is added.
\<close>

theorem walk_offline_skips_subtree:
  "\<not> include_dying \<Longrightarrow> css_flags b AND CSS_ONLINE K = 0 \<Longrightarrow>
     walk K include_dying b q parent_path blkgs = blkgs"
  by (cases b) simp

theorem walk_offline_skips_subtree_witness:
  "\<not> False \<and> css_flags (Blkcg 0 ''a'' [(8, blkg_a)] [Blkcg 2 ''b'' [(8, blkg_a)] []])
       AND CSS_ONLINE K_linux = 0
   \<and> walk K_linux False (Blkcg 0 ''a'' [(8, blkg_a)] [Blkcg 2 ''b'' [(8, blkg_a)] []])
         8 [] [(''/'', blkg_a)] = [(''/'', blkg_a)]"
  using walk_offline_skips_subtree
    [of False "Blkcg 0 ''a'' [(8, blkg_a)] [Blkcg 2 ''b'' [(8, blkg_a)] []]" K_linux
        8 "[]" "[(''/'', blkg_a)]"]
  by (simp add: K_linux_def)

text \<open>
  C1 as stated fails: in \<open>tree_dying\<close> the online grandchild \<open>a/b\<close> of the offline member
  \<open>a\<close> has a handle for queue 8, and is reported when dying members are included, but
  the walk without them yields the root alone.
\<close>

theorem walk_offline_descendant_counterexample:
  "map fst (BlkgIterator K_linux tree_dying 8 False) = [''/'']
   \<and> map fst (BlkgIterator K_linux tree_dying 8 True) = [''/'', ''a'', ''a/b'']"
  by (simp add: BlkgIterator_def tree_dying_def K_linux_def radix_tree_lookup_def)

text \<open>
  C2, as the code has it: a member for which the lookup by queue id finds no handle ends
  the walk of its whole subtree. The walker returns the output sequence unchanged:
  neither the member nor any of its descendants is added.
\<close>

theorem walk_no_handle_skips_subtree:
  "radix_tree_lookup (blkg_tree b) q = None \<Longrightarrow>
     walk K include_dying b q parent_path blkgs = blkgs"
  by (cases b) (simp add: Let_def)

theorem walk_no_handle_skips_subtree_witness:
  "radix_tree_lookup (blkg_tree (Blkcg 2 ''a'' [(9, blkg_a)] [Blkcg 2 ''b'' [(8, blkg_a)] []])) 8
     = None
   \<and> walk K_linux True (Blkcg 2 ''a'' [(9, blkg_a)] [Blkcg 2 ''b'' [(8, blkg_a)] []])
         8 [] [(''/'', blkg_a)] = [(''/'', blkg_a)]"
  using walk_no_handle_skips_subtree
    [of "Blkcg 2 ''a'' [(9, blkg_a)] [Blkcg 2 ''b'' [(8, blkg_a)] []]" 8 K_linux True
        "[]" "[(''/'', blkg_a)]"]
  by (simp add: radix_tree_lookup_def)

text \<open>
  C2 as stated fails: in \<open>tree_gap\<close> every member is online and the grandchild \<open>a/b\<close> has
  a handle for queue 8, but its parent \<open>a\<close> has none, and the walk yields the root alone.
\<close>

theorem walk_no_handle_descendant_counterexample:
  "map fst (BlkgIterator K_linux tree_gap 8 True) = [''/'']
   \<and> radix_tree_lookup (blkg_tree (Blkcg 2 ''b'' [(8, blkg_a)] [])) 8 = Some blkg_a"
  by (simp add: BlkgIterator_def tree_gap_def K_linux_def radix_tree_lookup_def)

section \<open>Deriving the statistics of a node\<close>

lemma bind_err_Inr [simp]: "bind_err (Inr x) f = f x"
  by (simp add: bind_err_def)

lemma bind_err_Inl [simp]: "bind_err (Inl e) f = Inl e"
  by (simp add: bind_err_def)

lemma truediv_ok: "b \<noteq> 0 \<Longrightarrow> truediv a b = Inr (a / b)"
  by (simp add: truediv_def)

text \<open>
  With a non-zero divisor and every index inside the array, the loop over the ring never
  raises: it appends the slots in logical order and folds \<^verbatim>\<open>max\<close> over them.
\<close>

lemma usages_loop_eq:
  assumes "HWEIGHT_WHOLE K \<noteq> 0" "0 < NR_USAGE_SLOTS K"
    "NR_USAGE_SLOTS K \<le> int (length (ioc_gq.usages g))"
  shows "usages_loop K g is (us, u) =
     Inr (us @ map (slot_pct K g) is, foldl py_max u (map (\<lambda>i. PFloat (slot_pct K g i)) is))"
proof (induction "is" arbitrary: us u)
  case Nil
  show ?case by simp
next
  case (Cons i rest)
  let ?k = "(usage_idx g + int i) mod NR_USAGE_SLOTS K"
  have k: "0 \<le> ?k" "?k < int (length (ioc_gq.usages g))"
    using assms(2,3) by (simp_all add: pos_mod_bound[THEN less_le_trans])
  have rd: "array_read (ioc_gq.usages g) ?k = Inr (ioc_gq.usages g ! nat ?k)"
    using k by (simp add: array_read_def)
  show ?case
    using assms(1) by (simp add: rd truediv_ok Cons.IH slot_pct_def)
qed

lemma num_val_foldl_py_max:
  "num_val (foldl py_max u (map PFloat rs)) = foldl max (num_val u) rs"
  by (induction rs arbitrary: u) (auto simp: py_max_def max_def)

lemma foldl_max_Max: "foldl max (a::rat) rs = Max (insert a (set rs))"
proof (induction rs arbitrary: a)
  case Nil
  show ?case by simp
next
  case (Cons r rs)
  have "Max (insert (max a r) (set rs)) = Max (insert a (insert r (set rs)))"
    by (cases "rs = []") (simp_all add: max.assoc)
  then show ?case by (simp add: Cons.IH)
qed

lemma Max_insert_zero:
  assumes "rs \<noteq> []" "\<forall>r\<in>set rs. (0::rat) \<le> r"
  shows "Max (insert 0 (set rs)) = Max (set rs)"
proof -
  obtain r where r: "r \<in> set rs" using assms(1) by (cases rs) auto
  have "0 \<le> Max (set rs)"
    using r assms(2) by (meson List.finite_set Max_ge order_trans)
  then show ?thesis using assms(1) by (simp add: max_def)
qed

lemma IocgStat_init_eq:
  assumes "HWEIGHT_WHOLE K \<noteq> 0" "VTIME_PER_USEC K \<noteq> 0"
    "NR_USAGE_SLOTS K \<le> int (length (ioc_gq.usages g))"
  shows "IocgStat_init K g = Inr (IocgStat_value K g)"
proof -
  have loop: "usages_loop K g (py_range (NR_USAGE_SLOTS K)) ([], PInt 0) =
      Inr (map (slot_pct K g) (py_range (NR_USAGE_SLOTS K)),
           foldl py_max (PInt 0)
             (map (\<lambda>i. PFloat (slot_pct K g i)) (py_range (NR_USAGE_SLOTS K))))"
  proof (cases "0 < NR_USAGE_SLOTS K")
    case True
    then show ?thesis using usages_loop_eq [OF assms(1) True assms(3)] by simp
  next
    case False
    then show ?thesis by (simp add: py_range_def)
  qed
  show ?thesis
    unfolding IocgStat_init_def IocgStat_value_def Let_def
    using assms(1,2) by (simp add: truediv_ok loop del: of_int_mult)
qed

text \<open>
  C3: when \<open>period_us\<close> times the rate counter is zero, \<^verbatim>\<open>IocgStat.__init__\<close> returns
  with \<open>inflight_pct\<close> the integer 0; otherwise it returns with \<open>inflight_pct\<close> the float
  \<open>(vtime - done_vtime) * 100 / period_vtime\<close>. In both cases no exception is raised,
  given that the constants \<open>HWEIGHT_WHOLE\<close> and \<open>VTIME_PER_USEC\<close> the other fields are
  divided by are not zero and the array has the \<open>NR_USAGE_SLOTS\<close> slots the loop reads.
\<close>

theorem inflight_pct_zero_period:
  assumes "HWEIGHT_WHOLE K \<noteq> 0" "VTIME_PER_USEC K \<noteq> 0"
    "NR_USAGE_SLOTS K \<le> int (length (ioc_gq.usages g))"
  shows "\<exists>s. IocgStat_init K g = Inr s \<and>
     inflight_pct s =
       (if ioc.period_us (iocg_ioc g) * ioc.vtime_rate (iocg_ioc g) = 0 then PInt 0
        else PFloat (of_int ((ioc_gq.vtime g - done_vtime g) * 100)
               / of_int (ioc.period_us (iocg_ioc g) * ioc.vtime_rate (iocg_ioc g))))"
  using IocgStat_init_eq [OF assms] by (simp add: IocgStat_value_def)

theorem inflight_pct_zero_period_witness:
  "HWEIGHT_WHOLE K_linux \<noteq> 0 \<and> VTIME_PER_USEC K_linux \<noteq> 0
   \<and> NR_USAGE_SLOTS K_linux \<le> int (length (ioc_gq.usages iocg_zero_period))
   \<and> NR_USAGE_SLOTS K_linux \<le> int (length (ioc_gq.usages iocg_a))
   \<and> (\<exists>s. IocgStat_init K_linux iocg_zero_period = Inr s \<and> inflight_pct s = PInt 0)
   \<and> (\<exists>s. IocgStat_init K_linux iocg_a = Inr s \<and> inflight_pct s = PFloat 5)"
proof -
  have h: "HWEIGHT_WHOLE K_linux \<noteq> 0" "VTIME_PER_USEC K_linux \<noteq> 0"
    "NR_USAGE_SLOTS K_linux \<le> int (length (ioc_gq.usages iocg_zero_period))"
    "NR_USAGE_SLOTS K_linux \<le> int (length (ioc_gq.usages iocg_a))"
    by (simp_all add: K_linux_def iocg_zero_period_def iocg_a_def)
  have z: "ioc.period_us (iocg_ioc iocg_zero_period) * ioc.vtime_rate (iocg_ioc iocg_zero_period) = 0"
    by (simp add: iocg_zero_period_def ioc_zero_period_def)
  have a: "ioc.period_us (iocg_ioc iocg_a) * ioc.vtime_rate (iocg_ioc iocg_a) = 13743800000"
    "ioc_gq.vtime iocg_a = 1687190000" "done_vtime iocg_a = 1000000000"
    by (simp_all add: iocg_a_def ioc_run_def)
  show ?thesis
    using h inflight_pct_zero_period [OF h(1) h(2) h(3)]
      inflight_pct_zero_period [OF h(1) h(2) h(4)]
    by (simp add: z a)
qed

text \<open>
  C5: the derived ring has exactly \<open>NR_USAGE_SLOTS\<close> entries; entry \<open>k\<close> is the storage
  slot at index \<open>(usage_idx + k) mod NR_USAGE_SLOTS\<close> times 100 over \<open>HWEIGHT_WHOLE\<close>;
  and the usage figure is the maximum over the ring. The slots are unsigned counters and
  \<open>HWEIGHT_WHOLE\<close> and the slot count are positive, so the 0 that the running maximum
  starts from never exceeds it.
\<close>

theorem usage_ring_order_and_max:
  assumes "0 < HWEIGHT_WHOLE K" "VTIME_PER_USEC K \<noteq> 0" "0 < NR_USAGE_SLOTS K"
    "int (length (ioc_gq.usages g)) = NR_USAGE_SLOTS K"
    "\<forall>x\<in>set (ioc_gq.usages g). 0 \<le> x"
  shows "\<exists>s. IocgStat_init K g = Inr s \<and>
     length (usages s) = nat (NR_USAGE_SLOTS K) \<and>
     (\<forall>k<nat (NR_USAGE_SLOTS K).
        usages s ! k =
          of_int (ioc_gq.usages g ! nat ((usage_idx g + int k) mod NR_USAGE_SLOTS K) * 100)
            / of_int (HWEIGHT_WHOLE K)) \<and>
     num_val (usage s) = Max (set (usages s))"
proof -
  let ?s = "IocgStat_value K g"
  let ?ring = "map (slot_pct K g) (py_range (NR_USAGE_SLOTS K))"
  have init: "IocgStat_init K g = Inr ?s"
    using assms(1,2,4) by (intro IocgStat_init_eq) simp_all
  have ring: "usages ?s = ?ring"
    by (simp add: IocgStat_value_def)
  have len: "length (usages ?s) = nat (NR_USAGE_SLOTS K)"
    by (simp add: ring py_range_def)
  have nth: "\<forall>k<nat (NR_USAGE_SLOTS K). usages ?s ! k = slot_pct K g k"
    by (simp add: ring py_range_def)
  have nonneg: "\<forall>r\<in>set ?ring. 0 \<le> r"
  proof
    fix r assume "r \<in> set ?ring"
    then obtain i where r: "r = slot_pct K g i" by auto
    let ?k = "(usage_idx g + int i) mod NR_USAGE_SLOTS K"
    have "0 \<le> ?k" "?k < int (length (ioc_gq.usages g))"
      using assms(3,4) by simp_all
    then have "ioc_gq.usages g ! nat ?k \<in> set (ioc_gq.usages g)"
      by (intro nth_mem) linarith
    then have "0 \<le> ioc_gq.usages g ! nat ?k" using assms(5) by blast
    then show "0 \<le> r"
      using assms(1) unfolding r slot_pct_def by (intro divide_nonneg_pos) simp_all
  qed
  have ne: "?ring \<noteq> []"
    using assms(3) by (simp add: py_range_def)
  have "usage ?s = foldl py_max (PInt 0) (map PFloat ?ring)"
    by (simp add: IocgStat_value_def comp_def)
  then have "num_val (usage ?s) = Max (insert 0 (set ?ring))"
    by (simp only: num_val_foldl_py_max foldl_max_Max) simp
  also have "\<dots> = Max (set (usages ?s))"
    using Max_insert_zero [OF ne nonneg] by (simp only: ring)
  finally have mx: "num_val (usage ?s) = Max (set (usages ?s))" .
  show ?thesis
    using init len nth mx unfolding slot_pct_def by blast
qed

theorem usage_ring_order_and_max_witness:
  "0 < HWEIGHT_WHOLE K_linux \<and> VTIME_PER_USEC K_linux \<noteq> 0 \<and> 0 < NR_USAGE_SLOTS K_linux
   \<and> int (length (ioc_gq.usages iocg_a)) = NR_USAGE_SLOTS K_linux
   \<and> ioc_gq.usages iocg_a = [16384, 32768, 65536]
   \<and> (\<exists>s. IocgStat_init K_linux iocg_a = Inr s \<and> length (usages s) = 3
        \<and> usages s ! 0 = 50 \<and> usages s ! 1 = 100 \<and> usages s ! 2 = 25
        \<and> num_val (usage s) = Max (set (usages s)))"
proof -
  have h: "0 < HWEIGHT_WHOLE K_linux" "VTIME_PER_USEC K_linux \<noteq> 0" "0 < NR_USAGE_SLOTS K_linux"
    "int (length (ioc_gq.usages iocg_a)) = NR_USAGE_SLOTS K_linux"
    "\<forall>x\<in>set (ioc_gq.usages iocg_a). 0 \<le> x"
    by (simp_all add: K_linux_def iocg_a_def)
  obtain s where s: "IocgStat_init K_linux iocg_a = Inr s"
    "length (usages s) = nat (NR_USAGE_SLOTS K_linux)"
    "\<forall>k<nat (NR_USAGE_SLOTS K_linux).
        usages s ! k =
          of_int (ioc_gq.usages iocg_a
                    ! nat ((usage_idx iocg_a + int k) mod NR_USAGE_SLOTS K_linux) * 100)
            / of_int (HWEIGHT_WHOLE K_linux)"
    "num_val (usage s) = Max (set (usages s))"
    using usage_ring_order_and_max [OF h] by blast
  have n: "nat (NR_USAGE_SLOTS K_linux) = 3"
    by (simp add: K_linux_def)
  have "usages s ! 0 = 50" "usages s ! 1 = 100" "usages s ! 2 = 25"
    using s(3) [rule_format, of 0] s(3) [rule_format, of 1] s(3) [rule_format, of 2]
    by (simp_all add: K_linux_def iocg_a_def)
  moreover have "ioc_gq.usages iocg_a = [16384, 32768, 65536]"
    by (simp add: iocg_a_def)
  ultimately show ?thesis
    using h(1-4) s(1,2,4) n by auto
qed

section \<open>Start-up\<close>

lemma locate_roots_first_named:
  "locate_roots dev entries = map_option (\<lambda>e. (q_id e, pd e)) (first_named dev entries)"
  by (induction entries) (auto simp: first_named_def split: option.splits)

text \<open>
  C9: when the kernel has no iocost symbols, the script writes one message to the error
  stream and exits with status 1. When the symbols are there, the patterns of the command
  line compile, and the first handle of the root that carries the device name (if there
  is one) has no controller data attached, the script writes
  \<^verbatim>\<open>Could not find ioc for DEV\<close> to the error stream and exits with status 1. In both cases
  the outcome is the same whatever the later snapshots would be: no pass of the sampling
  loop runs, nothing is printed, nothing is retried.
\<close>

theorem unresolved_device_is_fatal:
  "main K L a None snaps = Exited (''The kernel does not have iocost enabled'' @ [CHR 0x0A]) 1
   \<and> ((\<forall>p. filter_re (cgroup a) = Some p \<longrightarrow> re_valid L p) \<longrightarrow>
        (\<forall>e. first_named (devname a) (map snd (blkg_tree r)) = Some e \<longrightarrow> pd e = None) \<longrightarrow>
        main K L a (Some r) snaps =
          Exited (''Could not find ioc for '' @ devname a @ [CHR 0x0A]) 1)"
proof (intro conjI impI)
  show "main K L a None snaps = Exited (''The kernel does not have iocost enabled'' @ [CHR 0x0A]) 1"
    by (simp add: main_def startup_def err_def)
next
  assume c: "\<forall>p. filter_re (cgroup a) = Some p \<longrightarrow> re_valid L p"
  assume h: "\<forall>e. first_named (devname a) (map snd (blkg_tree r)) = Some e \<longrightarrow> pd e = None"
  have nc: "\<not> compile_raises L a"
    using c by (simp add: compile_raises_def split: option.splits)
  have "startup (Some r) (devname a) = err (''Could not find ioc for '' @ devname a)"
    using h unfolding startup_def locate_roots_first_named
    by (cases "first_named (devname a) (map snd (blkg_tree r))") auto
  then show "main K L a (Some r) snaps =
      Exited (''Could not find ioc for '' @ devname a @ [CHR 0x0A]) 1"
    using nc by (simp add: main_def err_def)
qed

theorem unresolved_device_is_fatal_witness:
  "filter_re (cgroup args_sdb_db) = Some ''^db/|cache''
   \<and> re_valid lib_ex ''^db/|cache''
   \<and> first_named (devname args_sdb_db) (map snd (blkg_tree tree_dying)) = None
   \<and> main K_linux lib_ex args_sdb_db (Some tree_dying) [snap_dying, snap_dying] =
       Exited (''Could not find ioc for sdb'' @ [CHR 0x0A]) 1"
proof -
  have f: "filter_re (cgroup args_sdb_db) = Some ''^db/|cache''"
    by (simp add: args_sdb_db_def filter_re_def re_str_def)
  have v: "re_valid lib_ex ''^db/|cache''"
    by (simp add: lib_ex_def lit_valid_def lit_body_def)
  have n: "first_named (devname args_sdb_db) (map snd (blkg_tree tree_dying)) = None"
    by (simp add: first_named_def args_sdb_db_def tree_dying_def blkg_a_def)
  have "main K_linux lib_ex args_sdb_db (Some tree_dying) [snap_dying, snap_dying] =
      Exited (''Could not find ioc for '' @ devname args_sdb_db @ [CHR 0x0A]) 1"
    using unresolved_device_is_fatal
      [of K_linux lib_ex args_sdb_db "[snap_dying, snap_dying]" tree_dying] f v n
    by simp
  then show ?thesis
    using f v n by (simp add: args_sdb_db_def)
qed

text \<open>
  A pattern that does not compile ends the script before the roots are searched: the
  run is the uncaught \<^verbatim>\<open>re.error\<close>, whatever the device.
\<close>

lemma main_invalid_pattern:
  "filter_re (cgroup a) = Some p \<Longrightarrow> \<not> re_valid L p \<Longrightarrow>
     main K L a (Some r) snaps = Raised ReError []"
  by (simp add: main_def compile_raises_def)

section \<open>The filters of the sampling loop\<close>

lemma or_pattern_append: "or_pattern ((s @ t) # rs) = s @ or_pattern (t # rs)"
  by (cases rs) simp_all

lemma re_str_loop_Some: "re_str_loop (Some s) rs = Some (or_pattern (s # rs))"
proof (induction rs arbitrary: s)
  case Nil
  show ?case by simp
next
  case (Cons r rs)
  have "or_pattern ((s @ ''|'' @ r) # rs) = s @ ''|'' @ or_pattern (r # rs)"
    using or_pattern_append [of "s @ ''|''" r rs] by simp
  then show ?case by (simp add: Cons.IH)
qed

lemma re_str_or_pattern: "re_str ps = (if ps = [] then None else Some (or_pattern ps))"
  by (cases ps) (simp_all add: re_str_def re_str_loop_Some)

lemma filter_re_or_pattern:
  "filter_re ps = (if or_pattern ps = [] then None else Some (or_pattern ps))"
  by (cases ps) (simp_all add: filter_re_def re_str_or_pattern)

text \<open>
  C10: a pair yielded by the walker whose handle has a null policy slot adds nothing to the
  output, in table mode and in structured mode alike: the loop over the pairs gives the
  same result, the same rows or the same exception of another node, as the loop over the
  list without that pair.
\<close>

theorem null_policy_slot_is_passed_over:
  "pd blkg = None \<Longrightarrow>
     node_loop K L a tnow (before @ (path, blkg) # after) out =
     node_loop K L a tnow (before @ after) out"
proof (induction before arbitrary: out)
  case Nil
  then show ?case by simp
next
  case (Cons x before)
  obtain p b where x: "x = (p, b)" by (cases x)
  show ?case
    unfolding x using Cons.IH [OF Cons.prems]
    by (simp add: bind_err_def split: option.splits sum.splits)
qed

theorem null_policy_slot_is_passed_over_witness:
  "pd blkg_nopd = None
   \<and> node_loop K_linux lib_ex args_sdb 0 ([(''/'', blkg_a)] @ (''a'', blkg_nopd) # [(''b'', blkg_a)]) []
     = node_loop K_linux lib_ex args_sdb 0 ([(''/'', blkg_a)] @ [(''b'', blkg_a)]) []"
  using null_policy_slot_is_passed_over
    [of blkg_nopd K_linux lib_ex args_sdb 0 "[(''/'', blkg_a)]" "''a''" "[(''b'', blkg_a)]" "[]"]
  by (simp add: blkg_nopd_def)

text \<open>
  C4, as the code has it: a pair yielded by the walker whose handle has policy data
  attached adds a row to the output if and only if either the patterns joined with \<open>|\<close>
  form a non-empty string and \<^verbatim>\<open>re.match\<close> of that pattern accepts the path, whatever
  the active flag, or the joined string is empty (no pattern is configured) and the
  node is active.
\<close>

theorem node_row_shown_iff:
  assumes "pd blkg = Some g" "IocgStat_init K g = Inr s"
  shows "node_loop K L a tnow ((path, blkg) # rest) out =
     node_loop K L a tnow rest
       (if (or_pattern (cgroup a) \<noteq> [] \<and> re_match L (or_pattern (cgroup a)) path)
           \<or> (or_pattern (cgroup a) = [] \<and> is_active s)
        then out @ [CHR 0x0A] @
               (if table_fmt a then table_row_str s path
                else dumps L (IocgStat_dict s tnow path))
        else out)"
  using assms by (simp add: filter_re_or_pattern)

section \<open>Decimal strings and the structured record\<close>







lemma map_of_replace_other:
  "k' \<noteq> k \<Longrightarrow>
     map_of (map (\<lambda>(k', v'). if k' = k then (k', v) else (k', v')) d) k' = map_of d k'"
  by (induction d) auto

lemma map_of_replace_same:
  "k \<in> fst ` set d \<Longrightarrow>
     map_of (map (\<lambda>(k', v'). if k' = k then (k', v) else (k', v')) d) k = Some v"
  by (induction d) auto

lemma map_of_dict_set:
  "map_of (dict_set d k v) k' = (if k' = k then Some v else map_of d k')"
proof (cases "k \<in> set (map fst d)")
  case True
  then show ?thesis
    by (simp add: dict_set_def map_of_replace_other map_of_replace_same)
next
  case False
  then have "map_of d k = None" by (simp add: map_of_eq_None_iff)
  then show ?thesis using False by (auto simp: dict_set_def map_add_def split: option.splits)
qed

lemma dict_usages_loop_other:
  "\<forall>i\<in>set is. k \<noteq> ''usage_pct_'' @ str_nat i \<Longrightarrow>
     map_of (dict_usages_loop us is out) k = map_of out k"
  by (induction "is" arbitrary: out) (simp_all add: map_of_dict_set)


section \<open>The table row\<close>

lemma math_ceil_ceiling: "math_ceil r = \<lceil>r\<rceil>"
  by (simp add: math_ceil_def ceiling_def)











lemma IocgStat_dict_fixed:
  "\<not> prefix ''usage_pct_'' k \<Longrightarrow>
     map_of (IocgStat_dict s tnow path) k =
     map_of [(''cgroup'', path),
                 (''timestamp'', str_float tnow),
                 (''is_active'', str_int (if is_active s then 1 else 0)),
                 (''weight'', str_int (weight s)),
                 (''weight_active'', str_int (active s)),
                 (''weight_inuse'', str_int (inuse s)),
                 (''hweight_active_pct'', str_float (hwa_pct s)),
                 (''hweight_inuse_pct'', str_float (hwi_pct s)),
                 (''inflight_pct'', py_str (inflight_pct s)),
                 (''debt_ms'', str_float (debt_ms s)),
                 (''use_delay'', str_int (use_delay s)),
                 (''delay_ms'', str_float (delay_ms s)),
                 (''usage_pct'', py_str (usage s)),
                 (''address'', py_hex (address s))] k"
  unfolding IocgStat_dict_def Let_def
  by (rule dict_usages_loop_other) (auto simp: prefix_def)


section \<open>The preamble\<close>

lemma IocStat_init_eq:
  "VTIME_PER_SEC K \<noteq> 0 \<Longrightarrow> VTIME_PER_USEC K \<noteq> 0 \<Longrightarrow>
     IocStat_init K c = Inr (IocStat_value K c)"
  by (simp add: IocStat_init_def IocStat_value_def truediv_ok del: of_int_mult)

lemma IocStat_init_Inr:
  "IocStat_init K c = Inr s \<Longrightarrow> s = IocStat_value K c"
  by (cases "VTIME_PER_SEC K = 0"; cases "VTIME_PER_USEC K = 0")
     (auto simp: IocStat_init_def IocStat_value_def truediv_def simp del: of_int_mult)

lemma table_preamble_str_spec:
  "table_preamble_str dev s =
     table_preamble_spec dev (IocStat.enabled s \<noteq> 0) (IocStat.running s) (period_ms s)
       (IocStat.period_at s) (vperiod_at s) (IocStat.busy_level s) (vrate_pct s) (autop_name s)
       (IocStat.user_cost_model s \<noteq> 0) (IocStat.user_qos_params s \<noteq> 0)"
  by (simp add: table_preamble_str_def table_preamble_spec_def Let_def)

lemma str_float_100: "str_float 100 = ''100.0''"
  by code_simp

lemma fmt_busy_m5: "fmt_int True False 3 (- 5) = '' -5''"
  by code_simp

lemma fmt_vrate_100: "fmt_f 6 2 100 = ''100.00''"
  by code_simp

lemma state_label_prefix:
  "prefix (dev @ '' '' @ (if IocStat.enabled s = 0 then ''OFF ''
                          else if IocStat.running s then ''RUN '' else ''IDLE'') @ '' per='')
     (table_preamble_str dev s)"
  by (simp add: table_preamble_str_def Let_def ljust_def)

section \<open>Facts about the example snapshots\<close>

lemma lit_match_db: "lit_match ''^db/'' ''db/a''" "\<not> lit_match ''^db/'' ''cache/b''"
  by (simp_all add: lit_match_def lit_body_def)

lemma filter_args_db: "or_pattern (cgroup args_db) = ''^db/''" "table_fmt args_db"
  by (simp_all add: args_db_def table_fmt_def)

lemma init_iocg_a: "IocgStat_init K_linux iocg_a = Inr (IocgStat_value K_linux iocg_a)"
  by (rule IocgStat_init_eq) (simp_all add: K_linux_def iocg_a_def)

lemma debt_cells:
  "fmt_int False False 3 (min \<lceil>2500001 / 1000 :: rat\<rceil> 999) = ''999''"
  "str_float (2500001 / 1000) = ''2500.001''"
  by (simp add: math_ceil_ceiling [symmetric], code_simp) code_simp

lemma init_iocg_debt: "IocgStat_init K_unit iocg_debt = Inr (IocgStat_value K_unit iocg_debt)"
  by (rule IocgStat_init_eq) (simp_all add: K_unit_def K_linux_def iocg_debt_def iocg_a_def)

lemma row_iocg_debt:
  "table_row_str (IocgStat_value K_unit iocg_debt) ''db/a'' =
     ''db/a                         *    50/  100  50.00/100.00   5.00 999  0*000 050:100:025''"
  by code_simp

lemma init_ioc_run: "IocStat_init K_linux ioc_run = Inr iocstat_run"
  by (simp add: IocStat_init_def K_linux_def ioc_run_def iocstat_run_def truediv_def
      autop_names_def)

lemma preamble_ioc_run:
  "table_preamble_str ''sda'' iocstat_run =
     ''sda RUN  per=100.0ms cur_per=1.500:v0.000 busy= -5 vrate=100.00% params=ssd_dfl''"
  by code_simp

section \<open>Filtering and rendering\<close>

text \<open>
  The example of the specification: with the pattern \<open>^db/\<close> and the active nodes
  \<open>db/a\<close> and \<open>cache/b\<close>, the output has the row of \<open>db/a\<close> alone.
\<close>

theorem node_row_shown_iff_witness:
  "pd blkg_a = Some iocg_a
   \<and> IocgStat_init K_linux iocg_a = Inr (IocgStat_value K_linux iocg_a)
   \<and> node_loop K_linux lib_ex args_db 0 [(''db/a'', blkg_a), (''cache/b'', blkg_a)] []
       = Inr ([CHR 0x0A] @ table_row_str (IocgStat_value K_linux iocg_a) ''db/a'')"
proof -
  have p: "pd blkg_a = Some iocg_a" by (simp add: blkg_a_def)
  have m: "re_match lib_ex = lit_match" by (simp add: lib_ex_def)
  show ?thesis
    using p init_iocg_a
      node_row_shown_iff [OF p init_iocg_a, of lib_ex args_db 0 "''db/a''"
        "[(''cache/b'', blkg_a)]" "[]"]
      node_row_shown_iff [OF p init_iocg_a, of lib_ex args_db 0 "''cache/b''" "[]"
        "[CHR 0x0A] @ table_row_str (IocgStat_value K_linux iocg_a) ''db/a''"]
    by (simp add: filter_args_db m lit_match_db)
qed

text \<open>
  C4 as stated fails: the pattern \<open>^db/\<close> is configured and matches the path \<open>db/a\<close>, but
  the handle the walker yields for it has a null policy slot, and the loop adds no row.
\<close>

theorem node_row_null_policy_counterexample:
  "filter_re (cgroup args_db) = Some ''^db/''
   \<and> re_match lib_ex ''^db/'' ''db/a''
   \<and> pd blkg_nopd = None
   \<and> node_loop K_linux lib_ex args_db 0 [(''db/a'', blkg_nopd)] [] = Inr []"
  by (simp add: args_db_def filter_re_def re_str_def lib_ex_def lit_match_db blkg_nopd_def)

text \<open>
  C6, as the code has it: for a node with a debt of 2,500,001 ticks at one tick per
  microsecond, \<open>debt_ms\<close> is 2500.001; the debt column of table mode rounds it up to 2501
  and caps it, so that it shows 999, and structured mode emits the string \<open>2500.001\<close>.
\<close>

theorem debt_column_is_capped:
  assumes "abs_vdebt g = 2500001" "VTIME_PER_USEC K = 1" "HWEIGHT_WHOLE K \<noteq> 0"
    "NR_USAGE_SLOTS K \<le> int (length (ioc_gq.usages g))"
  shows "\<exists>s. IocgStat_init K g = Inr s \<and> debt_ms s = 2500001 / 1000 \<and> row_debt s = ''999''
     \<and> map_of (IocgStat_dict s tnow path) ''debt_ms'' = Some ''2500.001''"
proof -
  let ?s = "IocgStat_value K g"
  have init: "IocgStat_init K g = Inr ?s"
    using assms by (intro IocgStat_init_eq) simp_all
  have d: "debt_ms ?s = 2500001 / 1000"
    using assms(1,2) by (simp add: IocgStat_value_def)
  have r: "row_debt ?s = ''999''"
    by (simp only: row_debt_def d math_ceil_ceiling debt_cells)
  have "map_of (IocgStat_dict ?s tnow path) ''debt_ms'' = Some (str_float (debt_ms ?s))"
    by (simp add: IocgStat_dict_fixed)
  then have j: "map_of (IocgStat_dict ?s tnow path) ''debt_ms'' = Some ''2500.001''"
    by (simp only: d debt_cells)
  show ?thesis using init d r j by blast
qed

theorem debt_column_is_capped_witness:
  "abs_vdebt iocg_debt = 2500001 \<and> VTIME_PER_USEC K_unit = 1 \<and> HWEIGHT_WHOLE K_unit \<noteq> 0
   \<and> NR_USAGE_SLOTS K_unit \<le> int (length (ioc_gq.usages iocg_debt))
   \<and> (\<exists>s. IocgStat_init K_unit iocg_debt = Inr s \<and> debt_ms s = 2500001 / 1000
        \<and> row_debt s = ''999''
        \<and> map_of (IocgStat_dict s 0 ''db/a'') ''debt_ms'' = Some ''2500.001'')"
proof -
  have h: "abs_vdebt iocg_debt = 2500001" "VTIME_PER_USEC K_unit = 1" "HWEIGHT_WHOLE K_unit \<noteq> 0"
    "NR_USAGE_SLOTS K_unit \<le> int (length (ioc_gq.usages iocg_debt))"
    by (simp_all add: iocg_debt_def K_unit_def K_linux_def iocg_a_def)
  show ?thesis
    using h debt_column_is_capped [OF h, of 0 "''db/a''"] by simp
qed

text \<open>
  C6 as stated fails: the debt column of that node does not show 3. The whole row is
  given for comparison.
\<close>

theorem debt_column_counterexample:
  "abs_vdebt iocg_debt = 2500001 \<and> VTIME_PER_USEC K_unit = 1
   \<and> IocgStat_init K_unit iocg_debt = Inr (IocgStat_value K_unit iocg_debt)
   \<and> row_debt (IocgStat_value K_unit iocg_debt) \<noteq> fmt_int False False 3 3
   \<and> table_row_str (IocgStat_value K_unit iocg_debt) ''db/a'' =
       ''db/a                         *    50/  100  50.00/100.00   5.00 999  0*000 050:100:025''"
proof -
  have "row_debt (IocgStat_value K_unit iocg_debt) = ''999''" by code_simp
  moreover have "fmt_int False False 3 3 = ''  3''" by code_simp
  ultimately have "row_debt (IocgStat_value K_unit iocg_debt) \<noteq> fmt_int False False 3 3"
    by simp
  then show ?thesis
    using init_iocg_debt row_iocg_debt
    by (simp add: iocg_debt_def K_unit_def)
qed



text \<open>
  C8, as the code has it: the preamble starts with the device name and the state label,
  which is \<open>OFF\<close> when the controller is not enabled, otherwise \<open>RUN\<close> when its running
  field equals \<open>IOC_RUNNING\<close>, else \<open>IDLE\<close>. For an enabled, running controller with a
  period of 100000 microseconds, busy level -5 and the nominal rate, it shows \<open>RUN\<close>,
  \<open>per=100.0ms\<close>, \<open>busy= -5\<close> (the busy level is signed and right-aligned in three
  columns) and \<open>vrate=100.00%\<close>.
\<close>

theorem preamble_of_running_controller:
  "(IocStat_init K c = Inr s \<longrightarrow>
      prefix (dev @ '' '' @ (if ioc.enabled c = 0 then ''OFF ''
                             else if ioc.running c = IOC_RUNNING K then ''RUN '' else ''IDLE'')
                @ '' per='')
        (table_preamble_str dev s))
   \<and> (ioc.enabled c = 1 \<and> ioc.running c = 1 \<and> IOC_RUNNING K = 1 \<and> ioc.period_us c = 100000
        \<and> ioc.busy_level c = - 5 \<and> ioc.vtime_rate c = VTIME_PER_USEC K
        \<and> VTIME_PER_USEC K \<noteq> 0 \<and> VTIME_PER_SEC K \<noteq> 0 \<longrightarrow>
      (\<exists>s'. IocStat_init K c = Inr s'
         \<and> prefix (dev @ '' RUN  per=100.0ms cur_per='') (table_preamble_str dev s')
         \<and> sublist '' busy= -5 vrate=100.00% params='' (table_preamble_str dev s')))"
proof (intro conjI impI)
  assume "IocStat_init K c = Inr s"
  then have s: "s = IocStat_value K c" by (rule IocStat_init_Inr)
  have e: "IocStat.enabled s = ioc.enabled c"
    "IocStat.running s = (ioc.running c = IOC_RUNNING K)"
    unfolding s by (simp_all add: IocStat_value_def)
  show "prefix (dev @ '' '' @ (if ioc.enabled c = 0 then ''OFF ''
                             else if ioc.running c = IOC_RUNNING K then ''RUN '' else ''IDLE'')
                @ '' per='')
        (table_preamble_str dev s)"
    using state_label_prefix [of dev s] by (simp only: e)
next
  assume h: "ioc.enabled c = 1 \<and> ioc.running c = 1 \<and> IOC_RUNNING K = 1 \<and> ioc.period_us c = 100000
        \<and> ioc.busy_level c = - 5 \<and> ioc.vtime_rate c = VTIME_PER_USEC K
        \<and> VTIME_PER_USEC K \<noteq> 0 \<and> VTIME_PER_SEC K \<noteq> 0"
  let ?s = "IocStat_value K c"
  have init: "IocStat_init K c = Inr ?s"
    using h by (simp add: IocStat_init_eq)
  have vr: "vrate_pct ?s = 100"
    using h by (simp add: IocStat_value_def)
  have pm: "period_ms ?s = 100"
    using h by (simp add: IocStat_value_def)
  obtain x y where row: "table_preamble_str dev ?s =
      (dev @ '' RUN  per=100.0ms cur_per='') @ x @ '' busy= -5 vrate=100.00% params='' @ y"
  proof
    show "table_preamble_str dev ?s =
      (dev @ '' RUN  per=100.0ms cur_per='') @
      (fmt_f 0 3 (IocStat.period_at ?s) @ '':v'' @ fmt_f 0 3 (vperiod_at ?s)) @
      '' busy= -5 vrate=100.00% params='' @
      (autop_name ?s @
       (if IocStat.user_cost_model ?s \<noteq> 0 \<or> IocStat.user_qos_params ?s \<noteq> 0
        then ''('' @ (if IocStat.user_cost_model ?s \<noteq> 0 then ''C'' else []) @
               (if IocStat.user_qos_params ?s \<noteq> 0 then ''Q'' else []) @ '')''
        else []))"
      unfolding table_preamble_str_spec table_preamble_spec_def vr pm
        str_float_100 fmt_vrate_100
      using h by (simp add: IocStat_value_def fmt_busy_m5 ljust_def)
  qed
  have p: "prefix (dev @ '' RUN  per=100.0ms cur_per='') (table_preamble_str dev ?s)"
    unfolding row by (rule prefixI) simp
  have "sublist '' busy= -5 vrate=100.00% params='' (table_preamble_str dev ?s)"
    unfolding row sublist_def by (intro exI) (rule append_assoc [symmetric])
  with init p show "\<exists>s'. IocStat_init K c = Inr s'
         \<and> prefix (dev @ '' RUN  per=100.0ms cur_per='') (table_preamble_str dev s')
         \<and> sublist '' busy= -5 vrate=100.00% params='' (table_preamble_str dev s')"
    by blast
qed

theorem preamble_of_running_controller_witness:
  "ioc.enabled ioc_run = 1 \<and> ioc.running ioc_run = 1 \<and> IOC_RUNNING K_linux = 1
   \<and> ioc.period_us ioc_run = 100000 \<and> ioc.busy_level ioc_run = - 5
   \<and> ioc.vtime_rate ioc_run = VTIME_PER_USEC K_linux
   \<and> VTIME_PER_USEC K_linux \<noteq> 0 \<and> VTIME_PER_SEC K_linux \<noteq> 0
   \<and> IocStat_init K_linux ioc_run = Inr iocstat_run
   \<and> prefix (''sda'' @ '' RUN  per='') (table_preamble_str ''sda'' iocstat_run)
   \<and> (\<exists>s'. IocStat_init K_linux ioc_run = Inr s'
         \<and> prefix (''sda'' @ '' RUN  per=100.0ms cur_per='') (table_preamble_str ''sda'' s')
         \<and> sublist '' busy= -5 vrate=100.00% params='' (table_preamble_str ''sda'' s'))"
proof -
  have h: "ioc.enabled ioc_run = 1 \<and> ioc.running ioc_run = 1 \<and> IOC_RUNNING K_linux = 1
      \<and> ioc.period_us ioc_run = 100000 \<and> ioc.busy_level ioc_run = - 5
      \<and> ioc.vtime_rate ioc_run = VTIME_PER_USEC K_linux
      \<and> VTIME_PER_USEC K_linux \<noteq> 0 \<and> VTIME_PER_SEC K_linux \<noteq> 0"
    by (simp add: ioc_run_def K_linux_def)
  show ?thesis
    using h init_ioc_run
      preamble_of_running_controller [of K_linux ioc_run iocstat_run "''sda''"]
    by simp
qed

text \<open>
  C8 as stated fails: for such a controller the preamble does not contain \<open>busy=-5\<close>.
\<close>

theorem preamble_busy_counterexample:
  "ioc.enabled ioc_run = 1 \<and> ioc.running ioc_run = 1 \<and> ioc.period_us ioc_run = 100000
   \<and> ioc.busy_level ioc_run = - 5 \<and> ioc.vtime_rate ioc_run = VTIME_PER_USEC K_linux
   \<and> IocStat_init K_linux ioc_run = Inr iocstat_run
   \<and> table_preamble_str ''sda'' iocstat_run =
       ''sda RUN  per=100.0ms cur_per=1.500:v0.000 busy= -5 vrate=100.00% params=ssd_dfl''
   \<and> \<not> sublist ''busy=-5'' (table_preamble_str ''sda'' iocstat_run)"
proof -
  have "\<not> sublist ''busy=-5''
      ''sda RUN  per=100.0ms cur_per=1.500:v0.000 busy= -5 vrate=100.00% params=ssd_dfl''"
    by code_simp
  then show ?thesis
    using init_ioc_run preamble_ioc_run by (simp add: ioc_run_def K_linux_def)
qed

end
